theory Spec2Isabelle
  imports Complex_Main
begin

section \<open>BudgetBud: the ledger store and its persistence (budgetbudd.py)\<close>

text \<open>
  The development embeds the non-GUI part of \<^verbatim>\<open>budgetbudd.py\<close>: \<^verbatim>\<open>to_decimal\<close>, the
  classes \<^verbatim>\<open>Transaction\<close>, \<^verbatim>\<open>Goal\<close> and \<^verbatim>\<open>DataManager\<close>, and the progress expression of
  \<^verbatim>\<open>BudgetBuddy.refresh_goals_table\<close>.

  Modelling decisions.
  \<^item> Python values that come out of \<^verbatim>\<open>json.loads\<close> are the datatype \<open>json\<close>. The fields
    \<^verbatim>\<open>date\<close>, \<^verbatim>\<open>description\<close>, \<^verbatim>\<open>kind\<close>, \<^verbatim>\<open>category\<close> and \<^verbatim>\<open>name\<close> are never checked by the
    program, so they hold any such value; the GUI stores strings (\<open>JStr\<close>).
  \<^item> \<^verbatim>\<open>decimal.Decimal\<close> is the datatype \<open>Decimal\<close>: sign, coefficient and exponent of a
    finite value, or one of the special values. The constructor \<^verbatim>\<open>Decimal(text)\<close> and
    \<^verbatim>\<open>str(d)\<close> belong to the Python library, not to this repository; they are written
    out here after the library's documented grammar, for strings of ASCII characters.
  \<^item> Arithmetic is done on the numeric value (\<open>number\<close>), exactly. The default decimal
    context rounds every result to 28 significant digits and bounds the exponent;
    that rounding and the conversion to a binary float in the progress expression are
    not modelled.
  \<^item> The file at \<^verbatim>\<open>self.path\<close> is modelled by what \<^verbatim>\<open>json.loads(path.read_text())\<close>
    makes of it: no file, text that raises \<^verbatim>\<open>JSONDecodeError\<close>, or a parsed document.
    \<^verbatim>\<open>save\<close> writes the text of a document, which reads back as that document.
  \<^item> An exception is a value of \<open>error\<close>; a method returns the exception it raised, if
    any, together with the state it leaves behind.
\<close>

subsection \<open>Exceptions\<close>

datatype error =
    KeyError | TypeError | AttributeError | IndexError
  | InvalidOperation | DivisionByZero | ValueError

subsection \<open>Decimal values\<close>

text \<open>\<open>DFinite neg c e\<close> is \<open>(-1)^neg * c * 10^e\<close>; \<open>DNaN neg signalling payload\<close>, where
  payload 0 stands for the empty diagnostic.\<close>

datatype Decimal =
    DFinite bool nat int
  | DInfinity bool
  | DNaN bool bool nat


text \<open>The numeric value an arithmetic operation sees.\<close>

datatype number = Num rat | Infty bool | QNaN | SNaN

fun is_Num :: "number \<Rightarrow> bool" where
  "is_Num (Num r) = True"
| "is_Num (Infty neg) = False"
| "is_Num QNaN = False"
| "is_Num SNaN = False"

definition pow10 :: "int \<Rightarrow> rat" where
  "pow10 e = (if 0 \<le> e then 10 ^ nat e else 1 / 10 ^ nat (- e))"

fun number_of :: "Decimal \<Rightarrow> number" where
  "number_of (DFinite neg c e) = Num ((if neg then - 1 else 1) * of_nat c * pow10 e)"
| "number_of (DInfinity neg) = Infty neg"
| "number_of (DNaN neg sig p) = (if sig then SNaN else QNaN)"

definition is_nan :: "number \<Rightarrow> bool" where
  "is_nan x = (x = QNaN \<or> x = SNaN)"

text \<open>\<^verbatim>\<open>x + y\<close>: a signalling NaN and \<open>Infinity + -Infinity\<close> raise (the default context
  traps \<^verbatim>\<open>InvalidOperation\<close>), a quiet NaN propagates.\<close>

fun num_add :: "number \<Rightarrow> number \<Rightarrow> error + number" where
  "num_add SNaN y = Inl InvalidOperation"
| "num_add x SNaN = Inl InvalidOperation"
| "num_add QNaN y = Inr QNaN"
| "num_add x QNaN = Inr QNaN"
| "num_add (Infty a) (Infty b) = (if a = b then Inr (Infty a) else Inl InvalidOperation)"
| "num_add (Infty a) (Num q) = Inr (Infty a)"
| "num_add (Num p) (Infty b) = Inr (Infty b)"
| "num_add (Num p) (Num q) = Inr (Num (p + q))"










subsection \<open>Decimal to text and back\<close>

definition digit_char :: "nat \<Rightarrow> char" where
  "digit_char d = char_of (48 + d)"

definition is_digit :: "char \<Rightarrow> bool" where
  "is_digit c = (48 \<le> (of_char c :: nat) \<and> (of_char c :: nat) \<le> 57)"

definition digit_val :: "char \<Rightarrow> nat" where
  "digit_val c = of_char c - 48"

fun digits :: "nat \<Rightarrow> string" where
  "digits n = (if n < 10 then [digit_char n] else digits (n div 10) @ [digit_char (n mod 10)])"

declare digits.simps [simp del]

definition nat_of_digits :: "string \<Rightarrow> nat" where
  "nat_of_digits ds = foldl (\<lambda>a c. 10 * a + digit_val c) 0 ds"

text \<open>\<^verbatim>\<open>"%+d" % n\<close> and \<^verbatim>\<open>str(n)\<close> for an int.\<close>

definition signed_str :: "int \<Rightarrow> string" where
  "signed_str n = (if n < 0 then CHR ''-'' # digits (nat (- n)) else CHR ''+'' # digits (nat n))"

definition int_str :: "int \<Rightarrow> string" where
  "int_str n = (if n < 0 then CHR ''-'' # digits (nat (- n)) else digits (nat n))"

definition sign_str :: "bool \<Rightarrow> string" where
  "sign_str neg = (if neg then ''-'' else [])"

text \<open>\<^verbatim>\<open>Decimal.__str__\<close>: plain notation when the exponent is at most 0 and more than
  \<open>-6\<close> digits stand left of the point, scientific notation with one digit before the
  point otherwise.\<close>

fun str_Decimal :: "Decimal \<Rightarrow> string" where
  "str_Decimal (DInfinity neg) = sign_str neg @ ''Infinity''"
| "str_Decimal (DNaN neg sig p) =
     sign_str neg @ (if sig then ''sNaN'' else ''NaN'') @ (if p = 0 then [] else digits p)"
| "str_Decimal (DFinite neg c e) =
     (let ds = digits c;
          leftdigits = e + int (length ds);
          dotplace = (if e \<le> 0 \<and> - 6 < leftdigits then leftdigits else 1);
          intpart = (if dotplace \<le> 0 then ''0''
                     else if int (length ds) \<le> dotplace
                       then ds @ replicate (nat dotplace - length ds) CHR ''0''
                     else take (nat dotplace) ds);
          fracpart = (if dotplace \<le> 0 then CHR ''.'' # replicate (nat (- dotplace)) CHR ''0'' @ ds
                      else if int (length ds) \<le> dotplace then []
                      else CHR ''.'' # drop (nat dotplace) ds);
          exp = (if leftdigits = dotplace then [] else CHR ''E'' # signed_str (leftdigits - dotplace))
      in sign_str neg @ intpart @ fracpart @ exp)"

text \<open>\<^verbatim>\<open>Decimal(text)\<close>: surrounding white space is stripped, underscores are dropped,
  letters match in either case; then an optional sign and either digits with an
  optional point and an optional exponent (at least one digit), or \<^verbatim>\<open>Inf\<close>,
  \<^verbatim>\<open>Infinity\<close>, or \<^verbatim>\<open>NaN\<close>/\<^verbatim>\<open>sNaN\<close> with optional diagnostic digits. \<open>None\<close> is
  \<^verbatim>\<open>InvalidOperation\<close>.\<close>

definition is_space :: "char \<Rightarrow> bool" where
  "is_space c = ((of_char c :: nat) \<in> {9, 10, 11, 12, 13, 28, 29, 30, 31, 32})"

definition strip :: "string \<Rightarrow> string" where
  "strip s = rev (dropWhile is_space (rev (dropWhile is_space s)))"

definition lower :: "char \<Rightarrow> char" where
  "lower c = (if 65 \<le> (of_char c :: nat) \<and> (of_char c :: nat) \<le> 90
              then char_of ((of_char c :: nat) + 32) else c)"

definition parse_exp :: "string \<Rightarrow> int option" where
  "parse_exp r =
     (case r of
        [] \<Rightarrow> Some 0
      | c # cs \<Rightarrow>
          if c \<noteq> CHR ''e'' then None
          else (let (neg, ds) = (case cs of
                                   [] \<Rightarrow> (False, [])
                                 | x # xs \<Rightarrow> if x = CHR ''-'' then (True, xs)
                                            else if x = CHR ''+'' then (False, xs)
                                            else (False, cs))
                in if ds \<noteq> [] \<and> list_all is_digit ds
                   then Some (if neg then - int (nat_of_digits ds) else int (nat_of_digits ds))
                   else None))"

definition parse_number :: "bool \<Rightarrow> string \<Rightarrow> Decimal option" where
  "parse_number neg r =
     (let ip = takeWhile is_digit r;
          r1 = dropWhile is_digit r;
          (fp, r2) = (case r1 of
                        [] \<Rightarrow> ([], r1)
                      | c # cs \<Rightarrow> if c = CHR ''.''
                                 then (takeWhile is_digit cs, dropWhile is_digit cs)
                                 else ([], r1))
      in if ip = [] \<and> fp = [] then None
         else (case parse_exp r2 of
                 None \<Rightarrow> None
               | Some x \<Rightarrow> Some (DFinite neg (nat_of_digits (ip @ fp)) (x - int (length fp)))))"

definition parse_nan :: "string \<Rightarrow> (bool \<times> string) option" where
  "parse_nan r =
     (if take 4 r = ''snan'' \<and> list_all is_digit (drop 4 r) then Some (True, drop 4 r)
      else if take 3 r = ''nan'' \<and> list_all is_digit (drop 3 r) then Some (False, drop 3 r)
      else None)"

definition Decimal_of_str :: "string \<Rightarrow> Decimal option" where
  "Decimal_of_str text =
     (let s = map lower (filter (\<lambda>c. c \<noteq> CHR ''_'') (strip text));
          (neg, r) = (case s of
                        [] \<Rightarrow> (False, [])
                      | c # cs \<Rightarrow> if c = CHR ''-'' then (True, cs)
                                 else if c = CHR ''+'' then (False, cs)
                                 else (False, s))
      in if r = ''inf'' \<or> r = ''infinity'' then Some (DInfinity neg)
         else (case parse_nan r of
                 Some (sig, diag) \<Rightarrow> Some (DNaN neg sig (nat_of_digits diag))
               | None \<Rightarrow> parse_number neg r))"

text \<open>\<^verbatim>\<open>to_decimal\<close> (lines 25-30): \<^verbatim>\<open>InvalidOperation\<close> becomes \<^verbatim>\<open>ValueError\<close>.\<close>

definition to_decimal :: "string \<Rightarrow> error + Decimal" where
  "to_decimal text =
     (case Decimal_of_str text of None \<Rightarrow> Inl ValueError | Some d \<Rightarrow> Inr d)"

subsection \<open>Values read from JSON\<close>

text \<open>What \<^verbatim>\<open>json.loads\<close> returns. A float is carried by the text \<^verbatim>\<open>str()\<close> prints for
  it; an object is its items in order (a parsed object has distinct keys).\<close>

datatype json =
    JNull | JBool bool | JInt int | JFloat string | JStr string
  | JArr "json list" | JObj "(string \<times> json) list"

text \<open>\<^verbatim>\<open>d[key]\<close> for a string key: only a dict can be indexed by a string.\<close>

fun py_getitem :: "json \<Rightarrow> string \<Rightarrow> error + json" where
  "py_getitem (JObj kvs) key = (case map_of kvs key of None \<Rightarrow> Inl KeyError | Some v \<Rightarrow> Inr v)"
| "py_getitem d key = Inl TypeError"

text \<open>\<^verbatim>\<open>d.get(key, default)\<close>: only a dict has the method.\<close>

fun dict_get :: "json \<Rightarrow> string \<Rightarrow> json \<Rightarrow> error + json" where
  "dict_get (JObj kvs) key dflt = (case map_of kvs key of None \<Rightarrow> Inr dflt | Some v \<Rightarrow> Inr v)"
| "dict_get d key dflt = Inl AttributeError"

text \<open>Iteration in a comprehension: a list gives its elements, a string its characters,
  a dict its keys; nothing else is iterable.\<close>

fun py_iter :: "json \<Rightarrow> error + json list" where
  "py_iter (JArr xs) = Inr xs"
| "py_iter (JStr s) = Inr (map (\<lambda>c. JStr [c]) s)"
| "py_iter (JObj kvs) = Inr (map (\<lambda>kv. JStr (fst kv)) kvs)"
| "py_iter d = Inl TypeError"

text \<open>\<^verbatim>\<open>Decimal(str(v))\<close>. The text of a list or a dict starts with a bracket, which no
  decimal does.\<close>

fun Decimal_of_value :: "json \<Rightarrow> error + Decimal" where
  "Decimal_of_value (JArr xs) = Inl InvalidOperation"
| "Decimal_of_value (JObj kvs) = Inl InvalidOperation"
| "Decimal_of_value v =
     (case Decimal_of_str (case v of
                             JStr s \<Rightarrow> s
                           | JInt n \<Rightarrow> int_str n
                           | JFloat r \<Rightarrow> r
                           | JBool b \<Rightarrow> (if b then ''True'' else ''False'')
                           | _ \<Rightarrow> ''None'') of
        None \<Rightarrow> Inl InvalidOperation
      | Some d \<Rightarrow> Inr d)"

fun map_result :: "('a \<Rightarrow> error + 'b) \<Rightarrow> 'a list \<Rightarrow> error + 'b list" where
  "map_result f [] = Inr []"
| "map_result f (x # xs) =
     (case f x of
        Inl e \<Rightarrow> Inl e
      | Inr y \<Rightarrow> (case map_result f xs of Inl e \<Rightarrow> Inl e | Inr ys \<Rightarrow> Inr (y # ys)))"

subsection \<open>Transaction and Goal\<close>

definition CATEGORIES :: "string list" where
  "CATEGORIES = [''Food'', ''Rent'', ''Entertainment'', ''Transport'',
                 ''Utilities'', ''Savings'', ''Other'']"

record Transaction =
  date :: json
  description :: json
  amount :: Decimal
  kind :: json
  category :: json

record Goal =
  name :: json
  target :: Decimal

definition Transaction_to_json :: "Transaction \<Rightarrow> json" where
  "Transaction_to_json t =
     JObj [(''date'', date t), (''description'', description t),
           (''amount'', JStr (str_Decimal (amount t))), (''kind'', kind t),
           (''category'', category t)]"

text \<open>\<^verbatim>\<open>Transaction.from_json\<close>: the arguments are evaluated left to right, and only a
  missing \<^verbatim>\<open>category\<close> key has a default.\<close>

definition Transaction_from_json :: "json \<Rightarrow> error + Transaction" where
  "Transaction_from_json d =
     (case py_getitem d ''date'' of Inl e \<Rightarrow> Inl e | Inr da \<Rightarrow>
      case py_getitem d ''description'' of Inl e \<Rightarrow> Inl e | Inr de \<Rightarrow>
      case py_getitem d ''amount'' of Inl e \<Rightarrow> Inl e | Inr av \<Rightarrow>
      case Decimal_of_value av of Inl e \<Rightarrow> Inl e | Inr am \<Rightarrow>
      case py_getitem d ''kind'' of Inl e \<Rightarrow> Inl e | Inr ki \<Rightarrow>
      case dict_get d ''category'' (JStr ''Other'') of Inl e \<Rightarrow> Inl e | Inr ca \<Rightarrow>
      Inr \<lparr>date = da, description = de, amount = am, kind = ki, category = ca\<rparr>)"

definition Goal_to_json :: "Goal \<Rightarrow> json" where
  "Goal_to_json g = JObj [(''name'', name g), (''target'', JStr (str_Decimal (target g)))]"

definition Goal_from_json :: "json \<Rightarrow> error + Goal" where
  "Goal_from_json d =
     (case py_getitem d ''name'' of Inl e \<Rightarrow> Inl e | Inr na \<Rightarrow>
      case py_getitem d ''target'' of Inl e \<Rightarrow> Inl e | Inr tv \<Rightarrow>
      case Decimal_of_value tv of Inl e \<Rightarrow> Inl e | Inr ta \<Rightarrow>
      Inr \<lparr>name = na, target = ta\<rparr>)"

subsection \<open>DataManager\<close>

datatype disk_file = NoFile | Unparseable string | Document json

datatype effect = WriteText json | ShowWarning string string

text \<open>\<open>disk\<close> is the file at \<^verbatim>\<open>self.path\<close>; \<open>effects\<close> records, in order, every
  \<^verbatim>\<open>write_text\<close> and every warning box.\<close>

record DataManager =
  transactions :: "Transaction list"
  goals :: "Goal list"
  disk :: disk_file
  effects :: "effect list"





text \<open>\<^verbatim>\<open>totals[t.category] += t.amount\<close> on the dict \<open>totals\<close>, kept as its items in
  insertion order: a list or dict as key is unhashable, any other absent key is a
  \<^verbatim>\<open>KeyError\<close>.\<close>

definition dict_set :: "(string \<times> number) list \<Rightarrow> string \<Rightarrow> number \<Rightarrow> (string \<times> number) list" where
  "dict_set kvs k v = map (\<lambda>kv. if fst kv = k then (k, v) else kv) kvs"

fun totals_add :: "(string \<times> number) list \<Rightarrow> json \<Rightarrow> number \<Rightarrow> error + (string \<times> number) list" where
  "totals_add totals (JStr c) x =
     (case map_of totals c of
        None \<Rightarrow> Inl KeyError
      | Some v \<Rightarrow> (case num_add v x of Inl e \<Rightarrow> Inl e | Inr v' \<Rightarrow> Inr (dict_set totals c v')))"
| "totals_add totals (JArr xs) x = Inl TypeError"
| "totals_add totals (JObj kvs) x = Inl TypeError"
| "totals_add totals k x = Inl KeyError"

fun totals_loop :: "(string \<times> number) list \<Rightarrow> Transaction list \<Rightarrow> error + (string \<times> number) list" where
  "totals_loop totals [] = Inr totals"
| "totals_loop totals (t # ts) =
     (if kind t = JStr ''Expense''
      then (case totals_add totals (category t) (number_of (amount t)) of
              Inl e \<Rightarrow> Inl e
            | Inr totals' \<Rightarrow> totals_loop totals' ts)
      else totals_loop totals ts)"

definition category_totals :: "DataManager \<Rightarrow> error + (string \<times> number) list" where
  "category_totals s = totals_loop (map (\<lambda>c. (c, Num 0)) CATEGORIES) (transactions s)"

text \<open>List assignment and \<^verbatim>\<open>pop\<close> with Python's indices: \<open>-len .. len - 1\<close> are valid,
  a negative index counts from the end.\<close>

definition list_index :: "'a list \<Rightarrow> int \<Rightarrow> error + nat" where
  "list_index xs i =
     (let n = int (length xs)
      in if - n \<le> i \<and> i < n then Inr (nat (if i < 0 then i + n else i)) else Inl IndexError)"

definition list_setitem :: "'a list \<Rightarrow> int \<Rightarrow> 'a \<Rightarrow> error + 'a list" where
  "list_setitem xs i v = (case list_index xs i of Inl e \<Rightarrow> Inl e | Inr k \<Rightarrow> Inr (xs[k := v]))"

definition list_pop :: "'a list \<Rightarrow> int \<Rightarrow> error + 'a list" where
  "list_pop xs i =
     (case list_index xs i of Inl e \<Rightarrow> Inl e | Inr k \<Rightarrow> Inr (take k xs @ drop (Suc k) xs))"

definition ledger_json :: "DataManager \<Rightarrow> json" where
  "ledger_json s =
     JObj [(''transactions'', JArr (map Transaction_to_json (transactions s))),
           (''goals'', JArr (map Goal_to_json (goals s)))]"

definition save :: "DataManager \<Rightarrow> DataManager" where
  "save s = s\<lparr>disk := Document (ledger_json s),
              effects := effects s @ [WriteText (ledger_json s)]\<rparr>"

definition add_transaction :: "Transaction \<Rightarrow> DataManager \<Rightarrow> error option \<times> DataManager" where
  "add_transaction t s = (None, save (s\<lparr>transactions := transactions s @ [t]\<rparr>))"

definition update_transaction :: "int \<Rightarrow> Transaction \<Rightarrow> DataManager \<Rightarrow> error option \<times> DataManager" where
  "update_transaction index t s =
     (case list_setitem (transactions s) index t of
        Inl e \<Rightarrow> (Some e, s)
      | Inr ts \<Rightarrow> (None, save (s\<lparr>transactions := ts\<rparr>)))"

definition delete_transaction :: "int \<Rightarrow> DataManager \<Rightarrow> error option \<times> DataManager" where
  "delete_transaction index s =
     (case list_pop (transactions s) index of
        Inl e \<Rightarrow> (Some e, s)
      | Inr ts \<Rightarrow> (None, save (s\<lparr>transactions := ts\<rparr>)))"

definition add_goal :: "Goal \<Rightarrow> DataManager \<Rightarrow> error option \<times> DataManager" where
  "add_goal g s = (None, save (s\<lparr>goals := goals s @ [g]\<rparr>))"

definition update_goal :: "int \<Rightarrow> Goal \<Rightarrow> DataManager \<Rightarrow> error option \<times> DataManager" where
  "update_goal index g s =
     (case list_setitem (goals s) index g of
        Inl e \<Rightarrow> (Some e, s)
      | Inr gs \<Rightarrow> (None, save (s\<lparr>goals := gs\<rparr>)))"

definition delete_goal :: "int \<Rightarrow> DataManager \<Rightarrow> error option \<times> DataManager" where
  "delete_goal index s =
     (case list_pop (goals s) index of
        Inl e \<Rightarrow> (Some e, s)
      | Inr gs \<Rightarrow> (None, save (s\<lparr>goals := gs\<rparr>)))"

text \<open>\<^verbatim>\<open>load\<close> (lines 125-140). \<^verbatim>\<open>self.transactions\<close> is assigned before the goals are
  read, so an exception among the goals leaves the new transactions in place.\<close>

definition load :: "DataManager \<Rightarrow> error option \<times> DataManager" where
  "load s =
     (case disk s of
        NoFile \<Rightarrow> (None, s)
      | Unparseable txt \<Rightarrow>
          (None, s\<lparr>effects := effects s @ [ShowWarning ''Warning'' ''Could not read data file.'']\<rparr>)
      | Document doc \<Rightarrow>
          (let data = (case doc of
                         JArr xs \<Rightarrow> JObj [(''transactions'', doc), (''goals'', JArr [])]
                       | _ \<Rightarrow> doc)
           in case (case dict_get data ''transactions'' (JArr []) of Inl e \<Rightarrow> Inl e | Inr v \<Rightarrow>
                    case py_iter v of Inl e \<Rightarrow> Inl e | Inr ds \<Rightarrow>
                    map_result Transaction_from_json ds) of
                Inl e \<Rightarrow> (Some e, s)
              | Inr ts \<Rightarrow>
                  (case (case dict_get data ''goals'' (JArr []) of Inl e \<Rightarrow> Inl e | Inr v \<Rightarrow>
                         case py_iter v of Inl e \<Rightarrow> Inl e | Inr ds \<Rightarrow>
                         map_result Goal_from_json ds) of
                     Inl e \<Rightarrow> (Some e, s\<lparr>transactions := ts\<rparr>)
                   | Inr gs \<Rightarrow> (None, s\<lparr>transactions := ts, goals := gs\<rparr>))))"

text \<open>\<^verbatim>\<open>DataManager.__init__\<close>: two empty lists, then \<^verbatim>\<open>load\<close>.\<close>

definition DataManager_init :: "disk_file \<Rightarrow> error option \<times> DataManager" where
  "DataManager_init f = load \<lparr>transactions = [], goals = [], disk = f, effects = []\<rparr>"





subsection \<open>Sample data\<close>

text \<open>The records of the specification's scenarios: an income of 1000.00, an expense of
  200.50 on food, a goal of 1000.00; a rent of 500.00 that outweighs no income; a record
  as an older or foreign file may hold it, with a category the program does not know.\<close>

definition salary :: Transaction where
  "salary = \<lparr>date = JStr ''03/01/2024 09:00'', description = JStr ''salary'',
             amount = DFinite False 100000 (- 2), kind = JStr ''Income'',
             category = JStr ''Other''\<rparr>"



definition holiday :: Goal where
  "holiday = \<lparr>name = JStr ''holiday'', target = DFinite False 100000 (- 2)\<rparr>"

definition market_record :: json where
  "market_record =
     JObj [(''date'', JStr ''03/04/2024 17:45''), (''description'', JStr ''market''),
           (''amount'', JStr ''12.50''), (''kind'', JStr ''Expense''),
           (''category'', JStr ''Groceries'')]"

definition market :: Transaction where
  "market = \<lparr>date = JStr ''03/04/2024 17:45'', description = JStr ''market'',
             amount = DFinite False 1250 (- 2), kind = JStr ''Expense'',
             category = JStr ''Groceries''\<rparr>"

definition ledger_of :: "Transaction list \<Rightarrow> Goal list \<Rightarrow> DataManager" where
  "ledger_of ts gs = \<lparr>transactions = ts, goals = gs, disk = NoFile, effects = []\<rparr>"

subsection \<open>Reference values for the aggregates\<close>

text \<open>The value of a finite amount, and the sums the specification describes: over the
  transactions of one kind, and over the expenses of one category.\<close>

definition amount_rat :: "Transaction \<Rightarrow> rat" where
  "amount_rat t = (case number_of (amount t) of Num r \<Rightarrow> r | _ \<Rightarrow> 0)"


definition expenses_in :: "string \<Rightarrow> Transaction list \<Rightarrow> rat" where
  "expenses_in c ts =
     sum_list (map amount_rat
                 (filter (\<lambda>t. kind t = JStr ''Expense'' \<and> category t = JStr c) ts))"


definition known_categories :: "Transaction list \<Rightarrow> bool" where
  "known_categories ts =
     list_all (\<lambda>t. kind t \<noteq> JStr ''Expense'' \<or> category t \<in> JStr ` set CATEGORIES) ts"

subsection \<open>Records of a file\<close>

text \<open>\<open>has_keys ks d\<close>: \<open>d\<close> is a JSON object that has every key of \<open>ks\<close>, so \<^verbatim>\<open>d[k]\<close>
  raises for none of them. \<open>money_unparseable key d\<close>: \<^verbatim>\<open>d[key]\<close> is a string that
  \<^verbatim>\<open>Decimal\<close> rejects. The sample record has a decimal comma for its amount.\<close>

definition has_keys :: "string list \<Rightarrow> json \<Rightarrow> bool" where
  "has_keys ks d = (case d of JObj kvs \<Rightarrow> list_all (\<lambda>k. k \<in> set (map fst kvs)) ks | _ \<Rightarrow> False)"

definition money_unparseable :: "string \<Rightarrow> json \<Rightarrow> bool" where
  "money_unparseable key d =
     (case py_getitem d key of Inr (JStr txt) \<Rightarrow> Decimal_of_str txt = None | _ \<Rightarrow> False)"

definition comma_record :: json where
  "comma_record =
     JObj [(''date'', JStr ''03/05/2024 10:00''), (''description'', JStr ''coffee''),
           (''amount'', JStr ''12,50''), (''kind'', JStr ''Expense''),
           (''category'', JStr ''Food'')]"

definition comma_file :: disk_file where
  "comma_file = Document (JObj [(''transactions'', JArr [comma_record]), (''goals'', JArr [])])"

section \<open>Properties\<close>

subsection \<open>Frame of the mutators\<close>

lemma save_transactions [simp]: "transactions (save s) = transactions s"
  by (simp add: save_def)

lemma save_goals [simp]: "goals (save s) = goals s"
  by (simp add: save_def)

text \<open>C10. A transaction mutator leaves the goals as they are and a goal mutator leaves
  the transactions as they are, for every state and every argument, whether or not
  the call raises.\<close>

theorem mutators_frame:
  "goals (snd (add_transaction t s)) = goals s
   \<and> goals (snd (update_transaction i t s)) = goals s
   \<and> goals (snd (delete_transaction i s)) = goals s
   \<and> transactions (snd (add_goal g s)) = transactions s
   \<and> transactions (snd (update_goal i g s)) = transactions s
   \<and> transactions (snd (delete_goal i s)) = transactions s"
  by (simp add: add_transaction_def update_transaction_def delete_transaction_def
      add_goal_def update_goal_def delete_goal_def split: sum.split)








subsection \<open>Indices of update and delete\<close>




subsection \<open>Files that cannot be read\<close>


subsection \<open>The aggregates\<close>













subsection \<open>Goal progress\<close>






subsection \<open>Categories outside the enumeration\<close>

lemma parse_12_50: "Decimal_of_str ''12.50'' = Some (DFinite False 1250 (- 2))"
  by code_simp

lemma market_read: "Transaction_from_json market_record = Inr market"
  by (simp add: Transaction_from_json_def market_record_def market_def parse_12_50)

text \<open>C2 on the code: a file whose one transaction has the category \<^verbatim>\<open>Groceries\<close> loads
  without an exception, the transaction keeps that category, which is none of
  \<open>CATEGORIES\<close>, and \<^verbatim>\<open>category_totals\<close> on the loaded ledger raises \<^verbatim>\<open>KeyError\<close>.\<close>

theorem unknown_category_kept:
  "DataManager_init (Document (JObj [(''transactions'', JArr [market_record]), (''goals'', JArr [])]))
     = (None, \<lparr>transactions = [market], goals = [],
               disk = Document (JObj [(''transactions'', JArr [market_record]), (''goals'', JArr [])]),
               effects = []\<rparr>)
   \<and> category market = JStr ''Groceries''
   \<and> category market \<notin> JStr ` set CATEGORIES
   \<and> category_totals \<lparr>transactions = [market], goals = [],
               disk = Document (JObj [(''transactions'', JArr [market_record]), (''goals'', JArr [])]),
               effects = []\<rparr> = Inl KeyError"
  by (simp add: DataManager_init_def load_def market_read category_totals_def CATEGORIES_def,
      simp add: market_def)

text \<open>C7 as stated fails: on a ledger that holds an expense of a category outside the
  enumeration \<^verbatim>\<open>category_totals\<close> returns no mapping: it raises \<^verbatim>\<open>KeyError\<close>.\<close>

theorem unknown_category_KeyError:
  "category_totals (ledger_of [market] []) = Inl KeyError"
  by (simp add: category_totals_def CATEGORIES_def ledger_of_def market_def)

subsection \<open>The legacy file shape\<close>

lemma load_bare_list:
  "fst (load (s\<lparr>disk := Document (JArr ds)\<rparr>))
     = fst (load (s\<lparr>disk := Document (JObj [(''transactions'', JArr ds), (''goals'', JArr [])])\<rparr>))
   \<and> transactions (snd (load (s\<lparr>disk := Document (JArr ds)\<rparr>)))
     = transactions (snd (load (s\<lparr>disk := Document (JObj [(''transactions'', JArr ds), (''goals'', JArr [])])\<rparr>)))
   \<and> goals (snd (load (s\<lparr>disk := Document (JArr ds)\<rparr>)))
     = goals (snd (load (s\<lparr>disk := Document (JObj [(''transactions'', JArr ds), (''goals'', JArr [])])\<rparr>)))"
  by (simp add: load_def split: sum.split)

text \<open>C8. A file that is a bare list of records, each of which reads as a transaction,
  loads as exactly those transactions in order with no goals; and for any bare list at
  all \<^verbatim>\<open>load\<close> gives the same exception, transactions and goals as for the object with
  that list under \<^verbatim>\<open>transactions\<close> and an empty list under \<^verbatim>\<open>goals\<close>.\<close>

theorem legacy_bare_list:
  assumes "map_result Transaction_from_json ds = Inr ts"
  shows "DataManager_init (Document (JArr ds))
           = (None, \<lparr>transactions = ts, goals = [], disk = Document (JArr ds), effects = []\<rparr>)
       \<and> load (s\<lparr>disk := Document (JArr ds)\<rparr>)
           = (None, s\<lparr>disk := Document (JArr ds), transactions := ts, goals := []\<rparr>)
       \<and> fst (load (s\<lparr>disk := Document (JArr ds)\<rparr>))
           = fst (load (s\<lparr>disk := Document (JObj [(''transactions'', JArr ds), (''goals'', JArr [])])\<rparr>))
       \<and> transactions (snd (load (s\<lparr>disk := Document (JArr ds)\<rparr>)))
           = transactions (snd (load (s\<lparr>disk := Document (JObj [(''transactions'', JArr ds), (''goals'', JArr [])])\<rparr>)))
       \<and> goals (snd (load (s\<lparr>disk := Document (JArr ds)\<rparr>)))
           = goals (snd (load (s\<lparr>disk := Document (JObj [(''transactions'', JArr ds), (''goals'', JArr [])])\<rparr>)))"
  using assms load_bare_list [where s = s and ds = ds]
  by (simp add: DataManager_init_def load_def)

theorem legacy_bare_list_witness:
  "DataManager_init (Document (JArr [market_record, market_record]))
     = (None, \<lparr>transactions = [market, market], goals = [],
               disk = Document (JArr [market_record, market_record]), effects = []\<rparr>)"
proof -
  have "map_result Transaction_from_json [market_record, market_record] = Inr [market, market]"
    by (simp add: market_read)
  from legacy_bare_list [OF this] show ?thesis by simp
qed

subsection \<open>Decimal text read back\<close>

text \<open>Towards the round trip of \<^verbatim>\<open>save\<close> and \<^verbatim>\<open>load\<close>: the text \<^verbatim>\<open>str\<close> prints for a
  Decimal is read back by the constructor as the same sign, coefficient and exponent.\<close>

lemma digit_char_props:
  assumes "d < 10"
  shows "is_digit (digit_char d)" "digit_val (digit_char d) = d"
  using assms by (simp_all add: is_digit_def digit_val_def digit_char_def)

lemma digits_nonempty: "digits n \<noteq> []"
  by (subst digits.simps) simp

lemma digits_all: "list_all is_digit (digits n)"
proof (induction n rule: digits.induct)
  case (1 n)
  show ?case
  proof (cases "n < 10")
    case True
    then show ?thesis by (subst digits.simps) (simp add: digit_char_props)
  next
    case False
    with 1 show ?thesis by (subst digits.simps) (simp add: digit_char_props)
  qed
qed

lemma nat_of_digits_snoc: "nat_of_digits (ds @ [c]) = 10 * nat_of_digits ds + digit_val c"
  by (simp add: nat_of_digits_def)

lemma nat_of_digits_digits: "nat_of_digits (digits n) = n"
proof (induction n rule: digits.induct)
  case (1 n)
  show ?case
  proof (cases "n < 10")
    case True
    then show ?thesis
      by (subst digits.simps) (simp add: nat_of_digits_def digit_char_props)
  next
    case False
    with 1 have "nat_of_digits (digits (n div 10)) = n div 10" by simp
    with False show ?thesis
      by (subst digits.simps) (simp add: nat_of_digits_snoc digit_char_props)
  qed
qed

lemma nat_of_digits_zeros: "nat_of_digits (replicate k CHR ''0'' @ ds) = nat_of_digits ds"
proof -
  have "foldl (\<lambda>a c. 10 * a + digit_val c) 0 (replicate k CHR ''0'') = 0"
    by (induction k) (simp_all add: digit_val_def)
  then show ?thesis by (simp add: nat_of_digits_def)
qed

lemma nat_of_digits_zero_cons: "nat_of_digits (CHR ''0'' # ds) = nat_of_digits ds"
  using nat_of_digits_zeros [of 1 ds] by simp

lemma span_digits:
  assumes "list_all is_digit xs" "rest = [] \<or> \<not> is_digit (hd rest)"
  shows "takeWhile is_digit (xs @ rest) = xs" "dropWhile is_digit (xs @ rest) = rest"
proof -
  have r: "takeWhile is_digit rest = []" "dropWhile is_digit rest = rest"
    using assms(2) by (cases rest; auto)+
  show "takeWhile is_digit (xs @ rest) = xs" "dropWhile is_digit (xs @ rest) = rest"
    using assms(1) r by (induction xs) auto
qed

lemma parse_exp_signed: "parse_exp (CHR ''e'' # signed_str x) = Some x"
  using digits_nonempty digits_all nat_of_digits_digits
  by (auto simp: parse_exp_def signed_str_def)

lemma parse_exp_nil: "parse_exp [] = Some 0"
  by (simp add: parse_exp_def)

lemma parse_number_point:
  assumes "list_all is_digit ip" "list_all is_digit fp" "ip \<noteq> [] \<or> fp \<noteq> []"
    and "parse_exp E = Some x" "E = [] \<or> hd E = CHR ''e''"
  shows "parse_number neg (ip @ CHR ''.'' # fp @ E)
           = Some (DFinite neg (nat_of_digits (ip @ fp)) (x - int (length fp)))"
proof -
  have nd: "\<not> is_digit CHR ''.''" "\<not> is_digit CHR ''e''"
    by (simp_all add: is_digit_def)
  have a: "takeWhile is_digit (ip @ CHR ''.'' # fp @ E) = ip"
    "dropWhile is_digit (ip @ CHR ''.'' # fp @ E) = CHR ''.'' # fp @ E"
    using span_digits [OF assms(1), of "CHR ''.'' # fp @ E"] nd by simp_all
  have b: "takeWhile is_digit (fp @ E) = fp" "dropWhile is_digit (fp @ E) = E"
    using span_digits [OF assms(2), of E] assms(5) nd by auto
  show ?thesis
    using assms(3,4) by (simp add: parse_number_def a b)
qed

lemma parse_number_whole:
  assumes "list_all is_digit ip" "ip \<noteq> []"
    and "parse_exp E = Some x" "E = [] \<or> hd E = CHR ''e''"
  shows "parse_number neg (ip @ E) = Some (DFinite neg (nat_of_digits ip) x)"
proof -
  have nd: "\<not> is_digit CHR ''e''"
    by (simp add: is_digit_def)
  have a: "takeWhile is_digit (ip @ E) = ip" "dropWhile is_digit (ip @ E) = E"
    using span_digits [OF assms(1), of E] assms(4) nd by auto
  have c: "(case E of [] \<Rightarrow> ([], E)
            | c # cs \<Rightarrow> if c = CHR ''.'' then (takeWhile is_digit cs, dropWhile is_digit cs) else ([], E))
           = ([], E)"
    using assms(4) by (cases E) auto
  show ?thesis
    using assms(2,3) by (simp add: parse_number_def a c)
qed


lemma strip_plain:
  assumes "\<forall>ch\<in>set s. \<not> is_space ch"
  shows "strip s = s"
proof -
  have d: "dropWhile is_space xs = xs" if "\<forall>ch\<in>set xs. \<not> is_space ch" for xs
    using that by (cases xs) auto
  have "dropWhile is_space (rev s) = rev s"
    using assms by (intro d) simp
  then show ?thesis
    using d [OF assms] by (simp add: strip_def)
qed

lemma filter_plain:
  assumes "\<forall>ch\<in>set s. ch \<noteq> CHR ''_''"
  shows "filter (\<lambda>c. c \<noteq> CHR ''_'') s = s"
  using assms by (induction s) auto

lemma digit_plain:
  assumes "is_digit ch"
  shows "\<not> is_space ch" "ch \<noteq> CHR ''_''" "lower ch = ch" "ch \<noteq> CHR ''-''" "ch \<noteq> CHR ''+''"
  using assms by (auto simp: is_digit_def is_space_def lower_def)

lemma lower_digits:
  assumes "list_all is_digit ds"
  shows "map lower ds = ds"
  using assms by (induction ds) (auto simp: digit_plain)

lemma Decimal_of_str_signed:
  assumes "\<forall>ch\<in>set body. \<not> is_space ch \<and> ch \<noteq> CHR ''_''"
    and "map lower body = c # cs" "c \<noteq> CHR ''-''" "c \<noteq> CHR ''+''"
  shows "Decimal_of_str (sign_str neg @ body) =
     (if c # cs = ''inf'' \<or> c # cs = ''infinity'' then Some (DInfinity neg)
      else (case parse_nan (c # cs) of
              Some (sig, diag) \<Rightarrow> Some (DNaN neg sig (nat_of_digits diag))
            | None \<Rightarrow> parse_number neg (c # cs)))"
proof -
  have m: "\<not> is_space CHR ''-''" "lower CHR ''-'' = CHR ''-''"
    by (simp_all add: is_space_def lower_def)
  have p: "\<forall>ch\<in>set (sign_str neg @ body). \<not> is_space ch"
    "\<forall>ch\<in>set (sign_str neg @ body). ch \<noteq> CHR ''_''"
    using assms(1) m by (auto simp: sign_str_def)
  have l: "map lower (sign_str neg @ body) = sign_str neg @ c # cs"
    using assms(2) m by (simp add: sign_str_def)
  show ?thesis
    unfolding Decimal_of_str_def strip_plain [OF p(1)] filter_plain [OF p(2)] l
    using assms(3,4) by (cases neg) (auto simp: sign_str_def Let_def split: option.split)
qed

lemma parse_nan_digit:
  assumes "is_digit c"
  shows "parse_nan (c # cs) = None" "c # cs \<noteq> ''inf''" "c # cs \<noteq> ''infinity''"
  using assms by (auto simp: parse_nan_def is_digit_def)

lemma Decimal_of_str_number:
  assumes "\<forall>ch\<in>set body. \<not> is_space ch \<and> ch \<noteq> CHR ''_''"
    and "map lower body = r" "r \<noteq> []" "is_digit (hd r)"
  shows "Decimal_of_str (sign_str neg @ body) = parse_number neg r"
proof -
  from assms(3) obtain c cs where r: "r = c # cs" by (cases r) auto
  with assms(4) have c: "is_digit c" by simp
  show ?thesis
    using Decimal_of_str_signed [OF assms(1) assms(2) [unfolded r], of neg]
      digit_plain(4,5) [OF c] parse_nan_digit [OF c, of cs]
    by (auto simp: r)
qed

lemma signed_str_plain:
  "\<forall>ch\<in>set (signed_str x). \<not> is_space ch \<and> ch \<noteq> CHR ''_''"
  "map lower (signed_str x) = signed_str x"
proof -
  have d: "\<forall>ch\<in>set (digits n). \<not> is_space ch \<and> ch \<noteq> CHR ''_''" for n
    using digits_all [of n] by (auto simp: list_all_iff digit_plain)
  have s: "\<not> is_space CHR ''-''" "\<not> is_space CHR ''+''"
    "lower CHR ''-'' = CHR ''-''" "lower CHR ''+'' = CHR ''+''"
    by (simp_all add: is_space_def lower_def)
  show "\<forall>ch\<in>set (signed_str x). \<not> is_space ch \<and> ch \<noteq> CHR ''_''"
    using d s by (auto simp: signed_str_def)
  show "map lower (signed_str x) = signed_str x"
    using s by (simp add: signed_str_def lower_digits digits_all)
qed

lemma digits_set:
  "\<forall>ch\<in>set (digits n). \<not> is_space ch \<and> ch \<noteq> CHR ''_''"
  using digits_all [of n] by (auto simp: list_all_iff digit_plain)

lemma list_all_take_drop:
  assumes "list_all P xs"
  shows "list_all P (take n xs)" "list_all P (drop n xs)"
  using assms by (auto simp: list_all_iff dest: in_set_takeD in_set_dropD)

lemma roundtrip_finite: "Decimal_of_str (str_Decimal (DFinite neg c e)) = Some (DFinite neg c e)"
proof -
  define ds where "ds = digits c"
  define ld where "ld = e + int (length ds)"
  define dp where "dp = (if e \<le> 0 \<and> - 6 < ld then ld else 1)"
  define E where "E = (if ld = dp then [] else CHR ''E'' # signed_str (ld - dp))"
  define El where "El = (if ld = dp then [] else CHR ''e'' # signed_str (ld - dp))"
  have ds: "list_all is_digit ds" "ds \<noteq> []" "nat_of_digits ds = c"
    by (simp_all add: ds_def digits_all digits_nonempty nat_of_digits_digits)
  have len: "0 < length ds" using ds(2) by simp
  have dsp: "\<forall>ch\<in>set ds. \<not> is_space ch \<and> ch \<noteq> CHR ''_''"
    by (simp add: ds_def digits_set)
  have Ep: "\<forall>ch\<in>set E. \<not> is_space ch \<and> ch \<noteq> CHR ''_''"
    using signed_str_plain(1) [of "ld - dp"] by (auto simp: E_def is_space_def)
  have El: "map lower E = El" "parse_exp El = Some (ld - dp)" "El = [] \<or> hd El = CHR ''e''"
    by (simp_all add: E_def El_def signed_str_plain(2) lower_def char_of_def bit_Suc_0_iff parse_exp_signed parse_exp_nil)
  have dple: "dp \<le> int (length ds)"
    using ds(2) by (cases ds) (auto simp: dp_def ld_def)
  have str0: "str_Decimal (DFinite neg c e) =
      sign_str neg
      @ (if dp \<le> 0 then ''0''
         else if int (length ds) \<le> dp then ds @ replicate (nat dp - length ds) CHR ''0''
         else take (nat dp) ds)
      @ (if dp \<le> 0 then CHR ''.'' # replicate (nat (- dp)) CHR ''0'' @ ds
         else if int (length ds) \<le> dp then []
         else CHR ''.'' # drop (nat dp) ds)
      @ E"
    unfolding ds_def ld_def dp_def E_def by (simp only: str_Decimal.simps Let_def)
  consider (small) "dp \<le> 0" | (whole) "dp = int (length ds)" | (split) "0 < dp" "dp < int (length ds)"
    using dple by linarith
  then show ?thesis
  proof cases
    case small
    define fp where "fp = replicate (nat (- dp)) CHR ''0'' @ ds"
    have str: "str_Decimal (DFinite neg c e) = sign_str neg @ (''0'' @ CHR ''.'' # fp @ E)"
      using small by (simp add: str0 fp_def del: str_Decimal.simps)
    have fp: "list_all is_digit fp" "nat_of_digits fp = c" "int (length fp) = - dp + int (length ds)"
      using ds small by (auto simp: fp_def nat_of_digits_zeros is_digit_def list_all_iff)
    have z: "list_all is_digit ''0''" "\<not> is_space CHR ''0''" "\<not> is_space CHR ''.''"
      "lower CHR ''0'' = CHR ''0''" "lower CHR ''.'' = CHR ''.''" "is_digit CHR ''0''"
      by (simp_all add: is_digit_def is_space_def lower_def)
    have plain: "\<forall>ch\<in>set (''0'' @ CHR ''.'' # fp @ E). \<not> is_space ch \<and> ch \<noteq> CHR ''_''"
      using dsp Ep z(2,3) by (simp add: fp_def ball_Un)
    have low: "map lower (''0'' @ CHR ''.'' # fp @ E) = ''0'' @ CHR ''.'' # fp @ El"
      using El(1) z(4,5) lower_digits [OF fp(1)] by simp
    have d: "Decimal_of_str (str_Decimal (DFinite neg c e)) = parse_number neg (''0'' @ CHR ''.'' # fp @ El)"
      unfolding str using z(6) by (intro Decimal_of_str_number [OF plain low]) simp_all
    have p: "parse_number neg (''0'' @ CHR ''.'' # fp @ El)
               = Some (DFinite neg (nat_of_digits (''0'' @ fp)) (ld - dp - int (length fp)))"
      by (rule parse_number_point [OF z(1) fp(1) _ El(2) El(3)]) simp
    have n: "nat_of_digits (''0'' @ fp) = c"
      using fp(2) by (simp add: nat_of_digits_zero_cons)
    have x: "ld - dp - int (length fp) = e"
      using fp(3) by (simp add: ld_def)
    show ?thesis by (simp only: d p n x)
  next
    case whole
    have str: "str_Decimal (DFinite neg c e) = sign_str neg @ (ds @ E)"
      using whole len by (simp add: str0 del: str_Decimal.simps)
    have plain: "\<forall>ch\<in>set (ds @ E). \<not> is_space ch \<and> ch \<noteq> CHR ''_''"
      using dsp Ep by (simp add: ball_Un)
    have low: "map lower (ds @ E) = ds @ El"
      using El(1) lower_digits [OF ds(1)] by simp
    have hd: "is_digit (hd (ds @ El))"
      using ds by (cases ds) auto
    have d: "Decimal_of_str (str_Decimal (DFinite neg c e)) = parse_number neg (ds @ El)"
      unfolding str using hd ds(2) by (intro Decimal_of_str_number [OF plain low]) simp_all
    have p: "parse_number neg (ds @ El) = Some (DFinite neg (nat_of_digits ds) (ld - dp))"
      by (rule parse_number_whole [OF ds(1) ds(2) El(2) El(3)])
    have x: "ld - dp = e"
      using whole by (simp add: ld_def)
    show ?thesis by (simp only: d p ds(3) x)
  next
    case split
    define ip where "ip = take (nat dp) ds"
    define fp where "fp = drop (nat dp) ds"
    have str: "str_Decimal (DFinite neg c e) = sign_str neg @ (ip @ CHR ''.'' # fp @ E)"
      using split by (simp add: str0 ip_def fp_def del: str_Decimal.simps)
    have parts: "list_all is_digit ip" "list_all is_digit fp" "ip \<noteq> []" "ip @ fp = ds"
      "int (length fp) = int (length ds) - dp"
      using split ds list_all_take_drop [OF ds(1)] by (auto simp: ip_def fp_def)
    have z: "\<not> is_space CHR ''.''" "lower CHR ''.'' = CHR ''.''"
      by (simp_all add: is_space_def lower_def)
    have sub: "set ip \<subseteq> set ds" "set fp \<subseteq> set ds"
      by (simp_all add: ip_def fp_def set_take_subset set_drop_subset)
    have ipp: "\<forall>ch\<in>set ip. \<not> is_space ch \<and> ch \<noteq> CHR ''_''"
      "\<forall>ch\<in>set fp. \<not> is_space ch \<and> ch \<noteq> CHR ''_''"
      using dsp sub by blast+
    have plain: "\<forall>ch\<in>set (ip @ CHR ''.'' # fp @ E). \<not> is_space ch \<and> ch \<noteq> CHR ''_''"
      using ipp Ep z(1) by (simp add: ball_Un)
    have low: "map lower (ip @ CHR ''.'' # fp @ E) = ip @ CHR ''.'' # fp @ El"
      using El(1) z(2) lower_digits [OF parts(1)] lower_digits [OF parts(2)] by simp
    have hd: "is_digit (hd (ip @ CHR ''.'' # fp @ El))"
      using parts(1,3) by (cases ip) auto
    have d: "Decimal_of_str (str_Decimal (DFinite neg c e)) = parse_number neg (ip @ CHR ''.'' # fp @ El)"
      unfolding str using parts(3) hd by (intro Decimal_of_str_number [OF plain low]) simp_all
    have p: "parse_number neg (ip @ CHR ''.'' # fp @ El)
               = Some (DFinite neg (nat_of_digits (ip @ fp)) (ld - dp - int (length fp)))"
      by (rule parse_number_point [OF parts(1) parts(2) _ El(2) El(3)]) (simp add: parts(3))
    have x: "ld - dp - int (length fp) = e"
      using parts(5) by (simp add: ld_def)
    show ?thesis by (simp only: d p parts(4) ds(3) x)
  qed
qed

lemma roundtrip_infinity: "Decimal_of_str (str_Decimal (DInfinity neg)) = Some (DInfinity neg)"
proof -
  have plain: "\<forall>ch\<in>set ''Infinity''. \<not> is_space ch \<and> ch \<noteq> CHR ''_''"
    by (simp add: is_space_def)
  have low: "map lower ''Infinity'' = CHR ''i'' # ''nfinity''"
    by (simp add: lower_def char_of_def bit_Suc_0_iff)
  have ne: "CHR ''i'' \<noteq> CHR ''-''" "CHR ''i'' \<noteq> CHR ''+''"
    by simp_all
  show ?thesis
    unfolding str_Decimal.simps Decimal_of_str_signed [OF plain low ne] by simp
qed

lemma roundtrip_nan: "Decimal_of_str (str_Decimal (DNaN neg sig p)) = Some (DNaN neg sig p)"
proof -
  define pd where "pd = (if p = 0 then [] else digits p)"
  have pd1: "list_all is_digit pd"
    by (simp add: pd_def digits_all)
  have pd2: "nat_of_digits pd = p"
  proof (cases "p = 0")
    case True
    then show ?thesis by (simp add: pd_def nat_of_digits_def)
  next
    case False
    then show ?thesis by (simp add: pd_def nat_of_digits_digits)
  qed
  have pd3: "\<forall>ch\<in>set pd. \<not> is_space ch \<and> ch \<noteq> CHR ''_''"
    using digits_set [of p] by (simp add: pd_def)
  have ne: "CHR ''s'' \<noteq> CHR ''-''" "CHR ''s'' \<noteq> CHR ''+''"
    "CHR ''n'' \<noteq> CHR ''-''" "CHR ''n'' \<noteq> CHR ''+''"
    by simp_all
  show ?thesis
  proof (cases sig)
    case True
    have plain: "\<forall>ch\<in>set (''sNaN'' @ pd). \<not> is_space ch \<and> ch \<noteq> CHR ''_''"
      using pd3 by (simp add: ball_Un is_space_def)
    have low: "map lower (''sNaN'' @ pd) = CHR ''s'' # ''nan'' @ pd"
      using lower_digits [OF pd1] by (simp add: lower_def char_of_def bit_Suc_0_iff)
    have pn: "parse_nan (CHR ''s'' # ''nan'' @ pd) = Some (True, pd)"
      using pd1 by (simp add: parse_nan_def)
    have s: "str_Decimal (DNaN neg sig p) = sign_str neg @ (''sNaN'' @ pd)"
      using True by (simp add: pd_def)
    show ?thesis
      unfolding s Decimal_of_str_signed [OF plain low ne(1,2)] pn
      using True pd2 by simp
  next
    case False
    have plain: "\<forall>ch\<in>set (''NaN'' @ pd). \<not> is_space ch \<and> ch \<noteq> CHR ''_''"
      using pd3 by (simp add: ball_Un is_space_def)
    have low: "map lower (''NaN'' @ pd) = CHR ''n'' # ''an'' @ pd"
      using lower_digits [OF pd1] by (simp add: lower_def char_of_def bit_Suc_0_iff)
    have pn: "parse_nan (CHR ''n'' # ''an'' @ pd) = Some (False, pd)"
      using pd1 by (simp add: parse_nan_def)
    have s: "str_Decimal (DNaN neg sig p) = sign_str neg @ (''NaN'' @ pd)"
      using False by (simp add: pd_def)
    show ?thesis
      unfolding s Decimal_of_str_signed [OF plain low ne(3,4)] pn
      using False pd2 by simp
  qed
qed

lemma Decimal_roundtrip: "Decimal_of_str (str_Decimal d) = Some d"
  by (cases d) (simp_all only: roundtrip_finite roundtrip_infinity roundtrip_nan)

subsection \<open>Saving and loading again\<close>

lemma Decimal_of_value_str: "Decimal_of_value (JStr (str_Decimal d)) = Inr d"
  by (simp add: Decimal_roundtrip)

lemma Transaction_roundtrip: "Transaction_from_json (Transaction_to_json t) = Inr t"
  by (simp add: Transaction_from_json_def Transaction_to_json_def Decimal_of_value_str
      del: Decimal_of_value.simps)

lemma Goal_roundtrip: "Goal_from_json (Goal_to_json g) = Inr g"
  by (simp add: Goal_from_json_def Goal_to_json_def Decimal_of_value_str
      del: Decimal_of_value.simps)

lemma map_result_roundtrip:
  assumes "\<And>x. f (g x) = Inr x"
  shows "map_result f (map g xs) = Inr xs"
  by (induction xs) (simp_all add: assms)

text \<open>C4. Loading what \<^verbatim>\<open>save\<close> wrote gives back the ledger: \<^verbatim>\<open>load\<close> right after \<^verbatim>\<open>save\<close>
  raises nothing and leaves the same transactions and goals, and a new DataManager on
  the saved file holds exactly the transactions and goals of the saved one, in the same
  order, each amount and target with the same sign, digits and exponent.\<close>

theorem save_load_roundtrip:
  "load (save s) = (None, save s)
   \<and> DataManager_init (disk (save s))
       = (None, \<lparr>transactions = transactions s, goals = goals s,
                 disk = Document (ledger_json s), effects = []\<rparr>)"
proof -
  have t: "map_result Transaction_from_json (map Transaction_to_json (transactions s))
             = Inr (transactions s)"
    by (rule map_result_roundtrip) (rule Transaction_roundtrip)
  have g: "map_result Goal_from_json (map Goal_to_json (goals s)) = Inr (goals s)"
    by (rule map_result_roundtrip) (rule Goal_roundtrip)
  show ?thesis
    by (simp add: load_def DataManager_init_def save_def ledger_json_def t g Let_def)
qed

subsection \<open>Monetary strings that do not parse\<close>

lemma map_of_key: "k \<in> set (map fst kvs) \<Longrightarrow> \<exists>v. map_of kvs k = Some v"
  by (induction kvs) auto

lemma Decimal_of_value_cases:
  "Decimal_of_value v = Inl InvalidOperation \<or> (\<exists>d. Decimal_of_value v = Inr d)"
  by (cases v) (auto split: option.split)

lemma Decimal_of_value_unparseable:
  "Decimal_of_str txt = None \<Longrightarrow> Decimal_of_value (JStr txt) = Inl InvalidOperation"
  by simp

lemma Transaction_from_json_shaped:
  assumes "has_keys [''date'', ''description'', ''amount'', ''kind''] d"
  shows "Transaction_from_json d = Inl InvalidOperation \<or> (\<exists>t. Transaction_from_json d = Inr t)"
    and "money_unparseable ''amount'' d \<Longrightarrow> Transaction_from_json d = Inl InvalidOperation"
proof -
  from assms obtain kvs where d: "d = JObj kvs"
    by (cases d) (simp_all add: has_keys_def)
  from assms d obtain da de av ki where
    v: "map_of kvs ''date'' = Some da" "map_of kvs ''description'' = Some de"
       "map_of kvs ''amount'' = Some av" "map_of kvs ''kind'' = Some ki"
    using map_of_key [of _ kvs] unfolding has_keys_def by fastforce
  show "Transaction_from_json d = Inl InvalidOperation \<or> (\<exists>t. Transaction_from_json d = Inr t)"
    using Decimal_of_value_cases [of av]
    by (cases "map_of kvs ''category''")
      (auto simp: Transaction_from_json_def d v simp del: Decimal_of_value.simps)
  assume "money_unparseable ''amount'' d"
  then have "Decimal_of_value av = Inl InvalidOperation"
    by (cases av) (simp_all add: money_unparseable_def d v)
  then show "Transaction_from_json d = Inl InvalidOperation"
    by (simp add: Transaction_from_json_def d v del: Decimal_of_value.simps)
qed

lemma Goal_from_json_shaped:
  assumes "has_keys [''name'', ''target''] d"
  shows "Goal_from_json d = Inl InvalidOperation \<or> (\<exists>g. Goal_from_json d = Inr g)"
    and "money_unparseable ''target'' d \<Longrightarrow> Goal_from_json d = Inl InvalidOperation"
proof -
  from assms obtain kvs where d: "d = JObj kvs"
    by (cases d) (simp_all add: has_keys_def)
  from assms d obtain na tv where
    v: "map_of kvs ''name'' = Some na" "map_of kvs ''target'' = Some tv"
    using map_of_key [of _ kvs] unfolding has_keys_def by fastforce
  show "Goal_from_json d = Inl InvalidOperation \<or> (\<exists>g. Goal_from_json d = Inr g)"
    using Decimal_of_value_cases [of tv]
    by (auto simp: Goal_from_json_def d v simp del: Decimal_of_value.simps)
  assume "money_unparseable ''target'' d"
  then have "Decimal_of_value tv = Inl InvalidOperation"
    by (cases tv) (simp_all add: money_unparseable_def d v)
  then show "Goal_from_json d = Inl InvalidOperation"
    by (simp add: Goal_from_json_def d v del: Decimal_of_value.simps)
qed

lemma map_result_total:
  assumes "\<forall>d\<in>set ds. f d = Inl E \<or> (\<exists>y. f d = Inr y)"
  shows "map_result f ds = Inl E \<or> (\<exists>ys. map_result f ds = Inr ys)"
  using assms by (induction ds) (auto split: sum.split)

lemma map_result_fails:
  assumes "\<forall>d\<in>set ds. f d = Inl E \<or> (\<exists>y. f d = Inr y)" and "\<exists>d\<in>set ds. f d = Inl E"
  shows "map_result f ds = Inl E"
  using assms
proof (induction ds)
  case Nil
  then show ?case by simp
next
  case (Cons a ds)
  show ?case
  proof (cases "f a")
    case (Inl e)
    with Cons.prems(1) show ?thesis by simp
  next
    case (Inr y)
    with Cons.prems(2) have "\<exists>d\<in>set ds. f d = Inl E" by auto
    with Cons.IH Cons.prems(1) have "map_result f ds = Inl E" by simp
    with Inr show ?thesis by simp
  qed
qed

text \<open>C5. Let the file be an object whose \<^verbatim>\<open>transactions\<close> and \<^verbatim>\<open>goals\<close> are lists (an absent
  key stands for the empty list) of objects that have the keys \<^verbatim>\<open>from_json\<close> reads. If
  the amount of some transaction or the target of some goal is a string that \<^verbatim>\<open>Decimal\<close>
  rejects, \<^verbatim>\<open>load\<close> raises \<^verbatim>\<open>decimal.InvalidOperation\<close> to its caller; the goals are left
  as they were, and so is the whole state when the string is an amount: no record with
  a replacement value is ever stored.\<close>

theorem unparseable_money_raises:
  assumes "disk s = Document (JObj kvs)"
    and "dict_get (JObj kvs) ''transactions'' (JArr []) = Inr (JArr tds)"
    and "dict_get (JObj kvs) ''goals'' (JArr []) = Inr (JArr gds)"
    and "list_all (has_keys [''date'', ''description'', ''amount'', ''kind'']) tds"
    and "list_all (has_keys [''name'', ''target'']) gds"
    and "(\<exists>d\<in>set tds. money_unparseable ''amount'' d) \<or> (\<exists>d\<in>set gds. money_unparseable ''target'' d)"
  shows "fst (load s) = Some InvalidOperation
       \<and> goals (snd (load s)) = goals s
       \<and> ((\<exists>d\<in>set tds. money_unparseable ''amount'' d) \<longrightarrow> snd (load s) = s)"
proof -
  have ta: "\<forall>d\<in>set tds. Transaction_from_json d = Inl InvalidOperation
              \<or> (\<exists>t. Transaction_from_json d = Inr t)"
    using assms(4) Transaction_from_json_shaped(1) by (simp add: list_all_iff)
  have ga: "\<forall>d\<in>set gds. Goal_from_json d = Inl InvalidOperation
              \<or> (\<exists>g. Goal_from_json d = Inr g)"
    using assms(5) Goal_from_json_shaped(1) by (simp add: list_all_iff)
  have tb: "\<exists>d\<in>set tds. money_unparseable ''amount'' d
            \<Longrightarrow> map_result Transaction_from_json tds = Inl InvalidOperation"
  proof -
    assume "\<exists>d\<in>set tds. money_unparseable ''amount'' d"
    then obtain d where "d \<in> set tds" "money_unparseable ''amount'' d" by blast
    with assms(4) have "\<exists>d\<in>set tds. Transaction_from_json d = Inl InvalidOperation"
      using Transaction_from_json_shaped(2) [of d] by (auto simp: list_all_iff)
    with ta show ?thesis by (rule map_result_fails)
  qed
  have gb: "\<exists>d\<in>set gds. money_unparseable ''target'' d
            \<Longrightarrow> map_result Goal_from_json gds = Inl InvalidOperation"
  proof -
    assume "\<exists>d\<in>set gds. money_unparseable ''target'' d"
    then obtain d where "d \<in> set gds" "money_unparseable ''target'' d" by blast
    with assms(5) have "\<exists>d\<in>set gds. Goal_from_json d = Inl InvalidOperation"
      using Goal_from_json_shaped(2) [of d] by (auto simp: list_all_iff)
    with ga show ?thesis by (rule map_result_fails)
  qed
  have ld: "load s =
     (case map_result Transaction_from_json tds of
        Inl e \<Rightarrow> (Some e, s)
      | Inr ts \<Rightarrow> (case map_result Goal_from_json gds of
                     Inl e \<Rightarrow> (Some e, s\<lparr>transactions := ts\<rparr>)
                   | Inr gs \<Rightarrow> (None, s\<lparr>transactions := ts, goals := gs\<rparr>)))"
    by (simp add: load_def assms(1) assms(2) assms(3) del: dict_get.simps split: sum.split)
  show ?thesis
  proof (cases "\<exists>d\<in>set tds. money_unparseable ''amount'' d")
    case True
    then show ?thesis by (simp add: ld tb)
  next
    case False
    with assms(6) have "map_result Goal_from_json gds = Inl InvalidOperation"
      using gb by blast
    with False map_result_total [OF ta] show ?thesis
      by (auto simp: ld)
  qed
qed

lemma comma_unparseable: "Decimal_of_str ''12,50'' = None"
  by code_simp

theorem unparseable_money_raises_witness:
  "load \<lparr>transactions = [salary], goals = [holiday], disk = comma_file, effects = []\<rparr>
     = (Some InvalidOperation,
        \<lparr>transactions = [salary], goals = [holiday], disk = comma_file, effects = []\<rparr>)"
proof -
  have u: "money_unparseable ''amount'' comma_record"
    by (simp add: money_unparseable_def comma_record_def comma_unparseable)
  have k: "has_keys [''date'', ''description'', ''amount'', ''kind''] comma_record"
    by (simp add: has_keys_def comma_record_def)
  from unparseable_money_raises [of "\<lparr>transactions = [salary], goals = [holiday], disk = comma_file, effects = []\<rparr>"
      "[(''transactions'', JArr [comma_record]), (''goals'', JArr [])]" "[comma_record]" "[]"]
    u k
  show ?thesis
    by (simp add: comma_file_def prod_eq_iff)
qed

end
